theory Spec2Isabelle
  imports Complex_Main
begin

section \<open>Dynamic values\<close>

text \<open>
  The validators of \<^verbatim>\<open>index.ts\<close> take an input of type \<^verbatim>\<open>unknown\<close>. A number is an
  IEEE double: a finite one is a rational, and there are the three non-finite ones.
  An object is the list of its own enumerable properties in the order of
  \<^verbatim>\<open>Object.keys\<close>, together with the properties that the operators \<^verbatim>\<open>in\<close> and
  \<^verbatim>\<open>[]\<close> also find but \<^verbatim>\<open>Object.keys\<close> does not list (the non-enumerable own ones and
  those of the prototype chain). An array is the list of its index slots (a slot without
  an element is a hole, and the length of the array is the length of the list), the list
  of its other enumerable own properties, and the same last component, without the
  length. A function value is known by its name only.
\<close>

datatype jsnum = Finite rat | NaN | PosInfinity | NegInfinity

datatype jsval =
    JUndefined
  | JNull
  | JBool bool
  | JNum jsnum
  | JStr string
  | JFunction string
  | JArr "jsval option list" "(string \<times> jsval) list" "(string \<times> jsval) list"
  | JObj "(string \<times> jsval) list" "(string \<times> jsval) list"

text \<open>The operator \<^verbatim>\<open>typeof\<close>, and the conversion to a boolean that \<^verbatim>\<open>!!\<close> does.\<close>

fun js_typeof :: "jsval \<Rightarrow> string" where
  "js_typeof JUndefined = ''undefined''"
| "js_typeof JNull = ''object''"
| "js_typeof (JBool b) = ''boolean''"
| "js_typeof (JNum n) = ''number''"
| "js_typeof (JStr s) = ''string''"
| "js_typeof (JFunction f) = ''function''"
| "js_typeof (JArr slots extras h) = ''object''"
| "js_typeof (JObj es h) = ''object''"

fun truthy :: "jsval \<Rightarrow> bool" where
  "truthy JUndefined = False"
| "truthy JNull = False"
| "truthy (JBool b) = b"
| "truthy (JNum (Finite q)) = (q \<noteq> 0)"
| "truthy (JNum NaN) = False"
| "truthy (JNum PosInfinity) = True"
| "truthy (JNum NegInfinity) = True"
| "truthy (JStr s) = (s \<noteq> [])"
| "truthy (JFunction f) = True"
| "truthy (JArr slots extras h) = True"
| "truthy (JObj es h) = True"

text \<open>\<^verbatim>\<open>Number.isInteger\<close>: a finite number without a fractional part.\<close>

fun Number_isInteger :: "jsval \<Rightarrow> bool" where
  "Number_isInteger (JNum (Finite q)) = (of_int \<lfloor>q\<rfloor> = q)"
| "Number_isInteger v = False"

fun Array_isArray :: "jsval \<Rightarrow> bool" where
  "Array_isArray (JArr slots extras h) = True"
| "Array_isArray v = False"

text \<open>A number in a template string, for the natural numbers that array indices are.\<close>

fun show_nat :: "nat \<Rightarrow> string" where
  "show_nat n =
     (if n < 10 then [''0123456789'' ! n]
      else show_nat (n div 10) @ [''0123456789'' ! (n mod 10)])"

declare show_nat.simps [simp del]

text \<open>
  The index properties of an array whose first slot has index \<open>i\<close>: one for each slot
  that has an element, in ascending order, the index written in decimal.
\<close>

fun index_entries_from :: "nat \<Rightarrow> jsval option list \<Rightarrow> (string \<times> jsval) list" where
  "index_entries_from i [] = []"
| "index_entries_from i (None # slots) = index_entries_from (Suc i) slots"
| "index_entries_from i (Some v # slots) = (show_nat i, v) # index_entries_from (Suc i) slots"

text \<open>
  The own enumerable properties of a value, in the order of \<^verbatim>\<open>Object.keys\<close>: for an
  array the index properties first, then the others.
\<close>

fun own_entries :: "jsval \<Rightarrow> (string \<times> jsval) list" where
  "own_entries (JObj es h) = es"
| "own_entries (JArr slots extras h) = index_entries_from 0 slots @ extras"
| "own_entries v = []"

fun array_length :: "jsval \<Rightarrow> nat" where
  "array_length (JArr slots extras h) = length slots"
| "array_length v = 0"

fun hidden_entries :: "jsval \<Rightarrow> (string \<times> jsval) list" where
  "hidden_entries (JObj es h) = h"
| "hidden_entries (JArr slots extras h) =
     (''length'', JNum (Finite (of_nat (length slots)))) # h"
| "hidden_entries v = []"

text \<open>
  The property that \<^verbatim>\<open>in\<close> and \<^verbatim>\<open>[]\<close> find under a key: the own one, else the one
  further up. \<^verbatim>\<open>input[key]\<close> is undefined when there is none.
\<close>

definition find_property :: "jsval \<Rightarrow> string \<Rightarrow> jsval option" where
  "find_property input key = map_of (own_entries input @ hidden_entries input) key"

definition get_property :: "jsval \<Rightarrow> string \<Rightarrow> jsval" where
  "get_property input key =
     (case find_property input key of
        Some v \<Rightarrow> v
      | None \<Rightarrow> JUndefined)"

text \<open>
  What \<^verbatim>\<open>every\<close> and \<^verbatim>\<open>flatMap\<close> visit on an array: for each index below the length,
  in ascending order, the property under that index if there is one (a hole is skipped
  unless the prototype chain has a property under its index), with its index.
\<close>

definition visited_elements :: "jsval \<Rightarrow> (nat \<times> jsval) list" where
  "visited_elements input =
     concat (map (\<lambda>index. case find_property input (show_nat index) of
                             Some element \<Rightarrow> [(index, element)]
                           | None \<Rightarrow> [])
               [0..<array_length input])"

text \<open>
  What every object literal and every parsed JSON object inherits from
  \<^verbatim>\<open>Object.prototype\<close>, and the prototype as a value: its own properties are not
  enumerable, and its \<^verbatim>\<open>__proto__\<close> is null.
\<close>

definition object_prototype_functions :: "(string \<times> jsval) list" where
  "object_prototype_functions =
     map (\<lambda>name. (name, JFunction (''Object.prototype.'' @ name)))
       [''constructor'', ''__defineGetter__'', ''__defineSetter__'', ''hasOwnProperty'',
        ''__lookupGetter__'', ''__lookupSetter__'', ''isPrototypeOf'',
        ''propertyIsEnumerable'', ''toString'', ''valueOf'', ''toLocaleString'']"

definition object_prototype :: jsval where
  "object_prototype = JObj [] (object_prototype_functions @ [(''__proto__'', JNull)])"

definition object_prototype_hidden :: "(string \<times> jsval) list" where
  "object_prototype_hidden = object_prototype_functions @ [(''__proto__'', object_prototype)]"

definition plain_object :: "(string \<times> jsval) list \<Rightarrow> jsval" where
  "plain_object es = JObj es object_prototype_hidden"

text \<open>
  An array inherits from \<^verbatim>\<open>Array.prototype\<close> (the names are those of ECMAScript 2023),
  which is itself an array of length 0. An array that \<^verbatim>\<open>Object.values\<close> or
  \<^verbatim>\<open>JSON.parse\<close> makes has an element in every slot and no other enumerable property.
\<close>

definition array_prototype_functions :: "(string \<times> jsval) list" where
  "array_prototype_functions =
     map (\<lambda>name. (name, JFunction (''Array.prototype.'' @ name)))
       [''constructor'', ''at'', ''concat'', ''copyWithin'', ''entries'', ''every'', ''fill'',
        ''filter'', ''find'', ''findIndex'', ''findLast'', ''findLastIndex'', ''flat'',
        ''flatMap'', ''forEach'', ''includes'', ''indexOf'', ''join'', ''keys'',
        ''lastIndexOf'', ''map'', ''pop'', ''push'', ''reduce'', ''reduceRight'', ''reverse'',
        ''shift'', ''slice'', ''some'', ''sort'', ''splice'', ''toLocaleString'',
        ''toReversed'', ''toSorted'', ''toSpliced'', ''toString'', ''unshift'', ''values'',
        ''with'']"

definition array_prototype :: jsval where
  "array_prototype =
     JArr [] [] (array_prototype_functions
                 @ object_prototype_functions @ [(''__proto__'', object_prototype)])"

definition array_prototype_hidden :: "(string \<times> jsval) list" where
  "array_prototype_hidden =
     array_prototype_functions @ object_prototype_functions @ [(''__proto__'', array_prototype)]"

definition new_array :: "jsval list \<Rightarrow> jsval" where
  "new_array xs = JArr (map Some xs) [] array_prototype_hidden"

text \<open>\<^verbatim>\<open>Array.prototype.join\<close> on an array of strings.\<close>

fun join :: "string \<Rightarrow> string list \<Rightarrow> string" where
  "join sep [] = []"
| "join sep [x] = x"
| "join sep (x # y # ys) = x @ sep @ join sep (y # ys)"

text \<open>
  A regular expression object: its \<^verbatim>\<open>g\<close> and \<^verbatim>\<open>y\<close> flags, its \<^verbatim>\<open>lastIndex\<close>, the
  host's matcher for its pattern (the end of the match that starts at a given index of a
  string, if there is one) and the text that \<^verbatim>\<open>toString\<close> gives. The validator uses it
  through \<^verbatim>\<open>test\<close> and \<^verbatim>\<open>toString\<close>.
\<close>

record RegExp =
  regexp_global :: bool
  regexp_sticky :: bool
  regexp_lastIndex :: nat
  regexp_matcher :: "string \<Rightarrow> nat \<Rightarrow> nat option"
  regexp_toString :: string

text \<open>The search for a match that starts at index \<open>i\<close> or later.\<close>

function regexp_search :: "(string \<Rightarrow> nat \<Rightarrow> nat option) \<Rightarrow> string \<Rightarrow> nat \<Rightarrow> nat option" where
  "regexp_search matcher s i =
     (if length s < i then None
      else case matcher s i of
             Some e \<Rightarrow> Some e
           | None \<Rightarrow> regexp_search matcher s (Suc i))"
  by pat_completeness auto
termination
  by (relation "measure (\<lambda>(matcher, s, i). Suc (length s) - i)") auto

declare regexp_search.simps [simp del]

text \<open>
  \<^verbatim>\<open>regex.test(s)\<close>, with the regex after the call (RegExpBuiltinExec, as of
  ECMAScript 2018). Without the \<^verbatim>\<open>g\<close> and \<^verbatim>\<open>y\<close> flags
  the search starts at index 0 and the regex is left as it is. With one of them the
  search starts at \<^verbatim>\<open>lastIndex\<close> (with \<^verbatim>\<open>y\<close> the match must start there), and
  \<^verbatim>\<open>lastIndex\<close> becomes the end of the match, or 0 when there is none.
\<close>

definition RegExp_test :: "RegExp \<Rightarrow> string \<Rightarrow> bool \<times> RegExp" where
  "RegExp_test regex s =
     (let uses_lastIndex = (regexp_global regex \<or> regexp_sticky regex);
          lastIndex = (if uses_lastIndex then regexp_lastIndex regex else 0);
          found = (if regexp_sticky regex
                   then (if length s < lastIndex then None else regexp_matcher regex s lastIndex)
                   else regexp_search (regexp_matcher regex) s lastIndex)
      in case found of
           None \<Rightarrow> (False, if uses_lastIndex then regex\<lparr>regexp_lastIndex := 0\<rparr> else regex)
         | Some e \<Rightarrow> (True, if uses_lastIndex then regex\<lparr>regexp_lastIndex := e\<rparr> else regex))"

section \<open>Validators\<close>

record validator =
  is_valid :: "jsval \<Rightarrow> bool"
  get_messages :: "jsval \<Rightarrow> string \<Rightarrow> string list"

definition double_quote :: "string \<Rightarrow> string" where
  "double_quote str = ''\"'' @ str @ ''\"''"

definition is_string :: "jsval \<Rightarrow> bool" where
  "is_string input = (js_typeof input = ''string'')"

definition string_validator :: validator where
  "string_validator = \<lparr>
     is_valid = is_string,
     get_messages = (\<lambda>input name.
       if is_string input then [] else [double_quote name @ '' is not a string''])\<rparr>"

definition is_number :: "jsval \<Rightarrow> bool" where
  "is_number input = (js_typeof input = ''number'')"

definition number_validator :: validator where
  "number_validator = \<lparr>
     is_valid = is_number,
     get_messages = (\<lambda>input name.
       if is_number input then [] else [double_quote name @ '' is not a number''])\<rparr>"

definition is_integer :: "jsval \<Rightarrow> bool" where
  "is_integer input = Number_isInteger input"

definition integer_validator :: validator where
  "integer_validator = \<lparr>
     is_valid = is_integer,
     get_messages = (\<lambda>input name.
       if is_number input then [] else [double_quote name @ '' is not an integer''])\<rparr>"

definition is_boolean :: "jsval \<Rightarrow> bool" where
  "is_boolean input = (js_typeof input = ''boolean'')"

definition boolean_validator :: validator where
  "boolean_validator = \<lparr>
     is_valid = is_boolean,
     get_messages = (\<lambda>input name.
       if is_boolean input then [] else [double_quote name @ '' is not a boolean''])\<rparr>"

definition is_object :: "jsval \<Rightarrow> bool" where
  "is_object input = (truthy input \<and> js_typeof input = ''object'')"

text \<open>
  The shape given to the object validator is an object whose values are validators: its
  own entries in the order of \<^verbatim>\<open>Object.keys\<close>, and the names of the properties that
  \<^verbatim>\<open>in\<close> finds on it besides. An object literal has those of \<^verbatim>\<open>Object.prototype\<close>.
\<close>

record shape =
  shape_entries :: "(string \<times> validator) list"
  shape_hidden :: "string list"

definition object_literal :: "(string \<times> validator) list \<Rightarrow> shape" where
  "object_literal es = \<lparr>shape_entries = es, shape_hidden = map fst object_prototype_hidden\<rparr>"

text \<open>\<^verbatim>\<open>key in shape\<close>: an own property or one of the prototype chain.\<close>

definition key_in_shape :: "string \<Rightarrow> shape \<Rightarrow> bool" where
  "key_in_shape key shape =
     (key \<in> set (map fst (shape_entries shape)) \<or> key \<in> set (shape_hidden shape))"

definition keys_plz :: "jsval \<Rightarrow> string list" where
  "keys_plz object = map fst (own_entries object)"

definition values_plz :: "jsval \<Rightarrow> jsval" where
  "values_plz object = new_array (map snd (own_entries object))"

text \<open>
  In \<^verbatim>\<open>make_object_validator\<close> the loop over \<^verbatim>\<open>keys_plz(shape)\<close> reads \<^verbatim>\<open>shape[key]\<close> at
  each own key: it visits the own entries of the shape.
\<close>

definition make_object_validator :: "shape \<Rightarrow> validator" where
  "make_object_validator shape = \<lparr>
     is_valid = (\<lambda>input.
       if \<not> is_object input then False
       else
         let all_input_keys_exist_in_shape =
               list_all (\<lambda>key. key_in_shape key shape) (keys_plz input)
         in if \<not> all_input_keys_exist_in_shape then False
            else list_all (\<lambda>(key, validator). is_valid validator (get_property input key))
                   (shape_entries shape)),
     get_messages = (\<lambda>input name.
       let quoted_name = double_quote name
       in if \<not> is_object input then [quoted_name @ '' is not an object'']
          else
            let keys_that_dont_exist_in_shape =
                  filter (\<lambda>key. \<not> key_in_shape key shape) (keys_plz input);
                property_messages =
                  concat (map (\<lambda>(key, validator).
                                 get_messages validator (get_property input key) key)
                            (shape_entries shape))
            in map (\<lambda>key. quoted_name @ '' should not have a property named ''
                              @ double_quote key @ '' '')
                 keys_that_dont_exist_in_shape
               @ map (\<lambda>message. quoted_name @ ''.'' @ message) property_messages)\<rparr>"

definition make_array_validator :: "validator \<Rightarrow> validator" where
  "make_array_validator element_validator = \<lparr>
     is_valid = (\<lambda>input.
       if \<not> Array_isArray input then False
       else list_all (\<lambda>(index, element). is_valid element_validator element)
              (visited_elements input)),
     get_messages = (\<lambda>input name.
       if \<not> Array_isArray input then [double_quote name @ '' is not an array'']
       else concat (map (\<lambda>(index, element).
                           get_messages element_validator element
                             (name @ ''['' @ show_nat index @ '']''))
                      (visited_elements input)))\<rparr>"

definition make_object_values_validator :: "validator \<Rightarrow> validator" where
  "make_object_values_validator element_validator =
     (let array_validator = make_array_validator element_validator
      in \<lparr>
        is_valid = (\<lambda>input.
          if \<not> is_object input then False
          else is_valid array_validator (values_plz input)),
        get_messages = (\<lambda>input name.
          if \<not> is_object input then [double_quote name @ '' is not an object'']
          else get_messages array_validator (values_plz input) name)\<rparr>)"

definition one_of :: "validator list \<Rightarrow> validator" where
  "one_of validators =
     (let is_valid' = (\<lambda>input. list_ex (\<lambda>validator. is_valid validator input) validators)
      in \<lparr>
        is_valid = is_valid',
        get_messages = (\<lambda>input name.
          if \<not> is_valid' input then
            let messages =
                  concat (map (\<lambda>validator. get_messages validator input name)
                            (filter (\<lambda>validator. \<not> is_valid validator input) validators))
            in [double_quote name @ '': '' @ join '', or '' messages]
          else [])\<rparr>)"

definition null_validator :: validator where
  "null_validator = \<lparr>
     is_valid = (\<lambda>input. input = JNull),
     get_messages = (\<lambda>input name.
       if input \<noteq> JNull then [double_quote name @ '' should be null''] else [])\<rparr>"

definition nullable :: "validator \<Rightarrow> validator" where
  "nullable validator = one_of [validator, null_validator]"

text \<open>
  \<^verbatim>\<open>custom_message || ...\<close>: the message when there is one and it is not the empty
  string, which is falsy.
\<close>

definition or_else :: "string option \<Rightarrow> string \<Rightarrow> string" where
  "or_else custom_message fallback =
     (case custom_message of
        None \<Rightarrow> fallback
      | Some m \<Rightarrow> if m = [] then fallback else m)"

text \<open>
  The two methods of \<^verbatim>\<open>make_regex_validator(regex, custom_message)\<close>. They call
  \<^verbatim>\<open>regex.test\<close> on the regex they share, so each takes the regex as it is before the
  call and gives the regex after the call with its result. \<^verbatim>\<open>test\<close> is not called on
  an input that is not a string.
\<close>

definition make_regex_validator_is_valid :: "RegExp \<Rightarrow> jsval \<Rightarrow> bool \<times> RegExp" where
  "make_regex_validator_is_valid regex input =
     (case input of JStr s \<Rightarrow> RegExp_test regex s | _ \<Rightarrow> (False, regex))"

definition make_regex_validator_get_messages ::
  "RegExp \<Rightarrow> string option \<Rightarrow> jsval \<Rightarrow> string \<Rightarrow> string list \<times> RegExp" where
  "make_regex_validator_get_messages regex custom_message input name =
     (let (matched, regex') =
            (case input of JStr s \<Rightarrow> RegExp_test regex s | _ \<Rightarrow> (False, regex))
      in (if \<not> matched then
            [or_else custom_message
               (double_quote name @ '' should be a string that matches ''
                @ double_quote (regexp_toString regex))]
          else [],
          regex'))"

definition undefined_validator :: validator where
  "undefined_validator = \<lparr>
     is_valid = (\<lambda>input. input = JUndefined),
     get_messages = (\<lambda>input name.
       if input \<noteq> JUndefined then [double_quote name @ '' should be undefined''] else [])\<rparr>"

definition optional :: "validator \<Rightarrow> validator" where
  "optional validator = one_of [validator, undefined_validator]"




text \<open>The consistency law of a validator, at every input and every name.\<close>

definition consistent :: "validator \<Rightarrow> bool" where
  "consistent v = (\<forall>input name. is_valid v input = (get_messages v input name = []))"

section \<open>Runtime type checks\<close>

lemma Number_isInteger_Finite: "Number_isInteger (JNum (Finite q)) = (q \<in> \<int>)"
proof -
  have "(of_int \<lfloor>q\<rfloor> = q) = (q \<in> \<int>)"
    by (metis Ints_of_int of_int_floor)
  then show ?thesis by simp
qed

declare Number_isInteger.simps(1) [simp del]
declare Number_isInteger_Finite [simp]

lemma is_string_iff: "is_string input = (\<exists>s. input = JStr s)"
  by (cases input) (simp_all add: is_string_def)

lemma is_number_iff: "is_number input = (\<exists>n. input = JNum n)"
  by (cases input) (simp_all add: is_number_def)

lemma is_boolean_iff: "is_boolean input = (\<exists>b. input = JBool b)"
  by (cases input) (simp_all add: is_boolean_def)

lemma is_object_iff:
  "is_object input =
     ((\<exists>slots extras h. input = JArr slots extras h) \<or> (\<exists>es h. input = JObj es h))"
  by (cases input) (simp_all add: is_object_def)

lemma is_integer_iff: "is_integer input = (\<exists>q. input = JNum (Finite q) \<and> q \<in> \<int>)"
proof (cases input)
  case (JNum n)
  then show ?thesis
    by (cases n) (simp_all add: is_integer_def)
qed (simp_all add: is_integer_def)

lemma three_and_a_half: "\<not> is_integer (JNum (Finite (7 / 2)))"
  by (simp add: is_integer_def)

lemma Array_isArray_iff:
  "Array_isArray input = (\<exists>slots extras h. input = JArr slots extras h)"
  by (cases input) simp_all

section \<open>Decimal indices\<close>

lemma show_nat_digit [simp]:
  "show_nat 0 = ''0''" "show_nat 1 = ''1''" "show_nat (Suc 0) = ''1''"
  by (simp_all add: show_nat.simps)

lemma show_nat_not_Nil: "show_nat n \<noteq> []"
  by (subst show_nat.simps) simp

lemma digit_inj:
  assumes "a < 10" "b < 10" "''0123456789'' ! a = ''0123456789'' ! b"
  shows "a = b"
proof -
  have "distinct ''0123456789''" by simp
  moreover have "a < length ''0123456789''" "b < length ''0123456789''"
    using assms by simp_all
  ultimately show ?thesis
    using assms(3) by (simp only: nth_eq_iff_index_eq)
qed

lemma show_nat_inj: "show_nat n = show_nat m \<Longrightarrow> n = m"
proof (induction n arbitrary: m rule: less_induct)
  case (less n)
  show ?case
  proof (cases "n < 10")
    case n: True
    show ?thesis
    proof (cases "m < 10")
      case True
      with n less.prems show ?thesis
        by (simp add: show_nat.simps [of n] show_nat.simps [of m] digit_inj)
    next
      case False
      with n less.prems show_nat_not_Nil [of "m div 10"] show ?thesis
        by (simp add: show_nat.simps [of n] show_nat.simps [of m])
    qed
  next
    case n: False
    show ?thesis
    proof (cases "m < 10")
      case True
      with n less.prems show_nat_not_Nil [of "n div 10"] show ?thesis
        by (simp add: show_nat.simps [of n] show_nat.simps [of m])
    next
      case False
      with n less.prems
      have a: "show_nat (n div 10) = show_nat (m div 10)"
        and b: "''0123456789'' ! (n mod 10) = ''0123456789'' ! (m mod 10)"
        by (simp_all add: show_nat.simps [of n] show_nat.simps [of m])
      from n have "n div 10 < n" by simp
      from less.IH [OF this a] have "n div 10 = m div 10" .
      moreover from b have "n mod 10 = m mod 10"
        by (intro digit_inj) simp_all
      ultimately show ?thesis
        by (metis div_mult_mod_eq)
    qed
  qed
qed

lemma show_nat_eq_iff [simp]: "(show_nat n = show_nat m) = (n = m)"
  using show_nat_inj by blast

lemma show_nat_digits: "set (show_nat n) \<subseteq> set ''0123456789''"
proof (induction n rule: less_induct)
  case (less n)
  show ?case
  proof (cases "n < 10")
    case True
    then have "''0123456789'' ! n \<in> set ''0123456789''"
      by (intro nth_mem) simp
    with True show ?thesis by (simp add: show_nat.simps [of n])
  next
    case False
    then have "n div 10 < n" by simp
    from less.IH [OF this] have "set (show_nat (n div 10)) \<subseteq> set ''0123456789''" .
    moreover have "''0123456789'' ! (n mod 10) \<in> set ''0123456789''"
      by (intro nth_mem) simp
    ultimately show ?thesis using False by (simp add: show_nat.simps [of n])
  qed
qed

lemma show_nat_not_length [simp]: "show_nat n \<noteq> ''length''"
proof
  assume "show_nat n = ''length''"
  then have "CHR ''l'' \<in> set (show_nat n)" by simp
  with show_nat_digits [of n] show False by auto
qed

section \<open>The properties of an array\<close>

lemma map_of_index_entries_from:
  "map_of (index_entries_from k slots) (show_nat i) =
     (if k \<le> i \<and> i < k + length slots then slots ! (i - k) else None)"
proof (induction slots arbitrary: k)
  case Nil
  then show ?case by auto
next
  case (Cons slot slots)
  show ?case
  proof (cases slot)
    case None
    then show ?thesis
      using Cons.IH [of "Suc k"]
      by (auto simp add: nth_Cons' Suc_diff_le le_Suc_eq)
  next
    case (Some v)
    then show ?thesis
      using Cons.IH [of "Suc k"]
      by (auto simp add: nth_Cons' Suc_diff_le le_Suc_eq)
  qed
qed

lemma find_property_index:
  "find_property (JArr slots extras h) (show_nat i) =
     (case (if i < length slots then slots ! i else None) of
        Some v \<Rightarrow> Some v
      | None \<Rightarrow> map_of (extras @ h) (show_nat i))"
  using map_of_index_entries_from [of 0 slots i]
  by (simp add: find_property_def map_add_def split: option.splits)

lemma map_snd_index_entries_from: "map snd (index_entries_from k (map Some xs)) = xs"
  by (induction xs arbitrary: k) simp_all

lemma visited_elements_dense:
  "visited_elements (JArr (map Some xs) extras h) = enumerate 0 xs"
proof -
  have a: "map (\<lambda>index. case find_property (JArr (map Some xs) extras h) (show_nat index) of
                        Some element \<Rightarrow> [(index, element)] | None \<Rightarrow> [])
          [0..<length xs]
      = map (\<lambda>index. [(index, xs ! index)]) [0..<length xs]"
    by (rule map_cong) (simp_all add: find_property_index)
  have b: "concat (map (\<lambda>index. [(index, xs ! index)]) [0..<length xs]) = enumerate 0 xs"
    by (rule nth_equalityI) (simp_all add: nth_enumerate_eq)
  show ?thesis
    by (simp only: visited_elements_def array_length.simps length_map a b)
qed

lemma visited_elements_Nil [simp]: "visited_elements (JArr [] extras h) = []"
  by (simp add: visited_elements_def)

section \<open>The search of a regular expression\<close>

lemma regexp_search_None:
  "(regexp_search matcher s i = None) = (\<forall>j. i \<le> j \<and> j \<le> length s \<longrightarrow> matcher s j = None)"
proof (induction matcher s i rule: regexp_search.induct)
  case (1 matcher s i)
  show ?case
  proof (cases "length s < i")
    case True
    then show ?thesis by (auto simp add: regexp_search.simps [of matcher s i])
  next
    case False
    show ?thesis
    proof (cases "matcher s i")
      case None
      with False 1 have "(regexp_search matcher s (Suc i) = None)
          = (\<forall>j. Suc i \<le> j \<and> j \<le> length s \<longrightarrow> matcher s j = None)"
        by simp
      moreover have "(\<forall>j. i \<le> j \<and> j \<le> length s \<longrightarrow> matcher s j = None)
          = (\<forall>j. Suc i \<le> j \<and> j \<le> length s \<longrightarrow> matcher s j = None)"
        using None by (metis Suc_leD Suc_leI le_neq_implies_less)
      ultimately show ?thesis
        using False None by (simp add: regexp_search.simps [of matcher s i])
    next
      case (Some e)
      with False show ?thesis
        by (auto simp add: regexp_search.simps [of matcher s i])
    qed
  qed
qed



lemma RegExp_test_without_flags:
  assumes "\<not> regexp_global r" "\<not> regexp_sticky r"
  shows "fst (RegExp_test r s) = (\<exists>i \<le> length s. regexp_matcher r s i \<noteq> None)"
    and "snd (RegExp_test r s) = r"
proof -
  have "(regexp_search (regexp_matcher r) s 0 = None)
      = (\<forall>i \<le> length s. regexp_matcher r s i = None)"
    by (simp add: regexp_search_None)
  then show "fst (RegExp_test r s) = (\<exists>i \<le> length s. regexp_matcher r s i \<noteq> None)"
    using assms by (cases "regexp_search (regexp_matcher r) s 0") (auto simp add: RegExp_test_def)
  show "snd (RegExp_test r s) = r"
    using assms by (simp add: RegExp_test_def split: option.splits)
qed

section \<open>What each validator computes\<close>

lemma map_enumerate_nth:
  "map (\<lambda>(i, x). g i x) (enumerate 0 xs) = map (\<lambda>i. g i (xs ! i)) [0..<length xs]"
  by (rule nth_equalityI) (simp_all add: nth_enumerate_eq)

lemma is_valid_array:
  "is_valid (make_array_validator e) input =
     (Array_isArray input
      \<and> list_all (\<lambda>(index, element). is_valid e element) (visited_elements input))"
  by (simp add: make_array_validator_def)

lemma get_messages_array:
  "get_messages (make_array_validator e) input name =
     (if Array_isArray input
      then concat (map (\<lambda>(index, element).
                          get_messages e element (name @ ''['' @ show_nat index @ '']''))
                     (visited_elements input))
      else [double_quote name @ '' is not an array''])"
  by (simp add: make_array_validator_def)

lemma list_all_snd: "list_all (\<lambda>(i, x). P x) ys = list_all P (map snd ys)"
  by (induction ys) auto

lemma is_valid_array_dense:
  "is_valid (make_array_validator e) (JArr (map Some xs) extras h) = list_all (is_valid e) xs"
  by (simp only: is_valid_array visited_elements_dense list_all_snd map_snd_enumerate
      Array_isArray.simps simp_thms)

lemma get_messages_array_dense:
  "get_messages (make_array_validator e) (JArr (map Some xs) extras h) name =
     concat (map (\<lambda>i. get_messages e (xs ! i) (name @ ''['' @ show_nat i @ '']''))
               [0..<length xs])"
  by (simp add: get_messages_array visited_elements_dense map_enumerate_nth)

lemma is_valid_array_new_array:
  "is_valid (make_array_validator e) (new_array xs) = list_all (is_valid e) xs"
  by (simp only: new_array_def is_valid_array_dense)

lemma get_messages_array_new_array:
  "get_messages (make_array_validator e) (new_array xs) name =
     concat (map (\<lambda>i. get_messages e (xs ! i) (name @ ''['' @ show_nat i @ '']''))
               [0..<length xs])"
  by (simp only: new_array_def get_messages_array_dense)

lemma visited_elements_new_array: "visited_elements (new_array xs) = enumerate 0 xs"
  by (simp only: new_array_def visited_elements_dense)

lemma values_plz_dense:
  "values_plz (JObj es h) = new_array (map snd es)"
  "values_plz (JArr (map Some xs) [] h) = new_array xs"
  "Array_isArray (values_plz x)"
  by (simp_all add: values_plz_def new_array_def map_snd_index_entries_from)

lemma is_valid_object_values:
  "is_valid (make_object_values_validator e) input =
     (is_object input \<and> is_valid (make_array_validator e) (values_plz input))"
  by (simp add: make_object_values_validator_def Let_def)

lemma get_messages_object_values:
  "get_messages (make_object_values_validator e) input name =
     (if is_object input then get_messages (make_array_validator e) (values_plz input) name
      else [double_quote name @ '' is not an object''])"
  by (simp add: make_object_values_validator_def Let_def)

lemma get_messages_object_values_JObj:
  "get_messages (make_object_values_validator e) (JObj es h) n =
     concat (map (\<lambda>i. get_messages e (snd (es ! i)) (n @ ''['' @ show_nat i @ '']''))
               [0..<length es])"
proof -
  have "map (\<lambda>i. get_messages e (map snd es ! i) (n @ ''['' @ show_nat i @ '']'')) [0..<length es]
      = map (\<lambda>i. get_messages e (snd (es ! i)) (n @ ''['' @ show_nat i @ '']'')) [0..<length es]"
    by (rule map_cong) simp_all
  moreover have "get_messages (make_object_values_validator e) (JObj es h) n
      = concat (map (\<lambda>i. get_messages e (map snd es ! i) (n @ ''['' @ show_nat i @ '']''))
                  [0..<length es])"
    by (simp add: get_messages_object_values values_plz_dense
        get_messages_array_new_array is_object_iff)
  ultimately show ?thesis by (simp only:)
qed





lemma is_valid_one_of:
  "is_valid (one_of vs) input = (\<exists>v \<in> set vs. is_valid v input)"
  by (simp add: one_of_def Let_def list_ex_iff)

lemma get_messages_one_of:
  "get_messages (one_of vs) input name =
     (if \<exists>v \<in> set vs. is_valid v input then []
      else [double_quote name @ '': '' @ join '', or ''
              (concat (map (\<lambda>v. get_messages v input name)
                         (filter (\<lambda>v. \<not> is_valid v input) vs)))])"
  by (simp add: one_of_def Let_def list_ex_iff)


lemma get_messages_regex:
  "fst (make_regex_validator_get_messages r cm input name) =
     (if fst (make_regex_validator_is_valid r input) then []
      else [or_else cm (double_quote name @ '' should be a string that matches ''
                        @ double_quote (regexp_toString r))])"
  by (cases input)
    (simp_all add: make_regex_validator_get_messages_def make_regex_validator_is_valid_def
      split_def Let_def)

lemma regex_after_call:
  "snd (make_regex_validator_get_messages r cm input name)
     = snd (make_regex_validator_is_valid r input)"
  by (cases input)
    (simp_all add: make_regex_validator_get_messages_def make_regex_validator_is_valid_def
      split_def Let_def)

lemma regex_without_flags_unchanged:
  assumes "\<not> regexp_global r" "\<not> regexp_sticky r"
  shows "snd (make_regex_validator_is_valid r input) = r"
  using assms
  by (cases input) (simp_all add: make_regex_validator_is_valid_def RegExp_test_without_flags)




lemma key_in_shape_iff:
  "key_in_shape key s = (key \<in> fst ` set (shape_entries s) \<or> key \<in> set (shape_hidden s))"
  by (simp add: key_in_shape_def)

lemma is_valid_object:
  "is_valid (make_object_validator s) input =
     (is_object input
      \<and> (\<forall>key \<in> set (keys_plz input). key_in_shape key s)
      \<and> (\<forall>(key, v) \<in> set (shape_entries s). is_valid v (get_property input key)))"
  by (simp add: make_object_validator_def Let_def list_all_iff)

lemma get_messages_object:
  "get_messages (make_object_validator s) input name =
     (if is_object input then
        map (\<lambda>key. double_quote name @ '' should not have a property named ''
                     @ double_quote key @ '' '')
          (filter (\<lambda>key. \<not> key_in_shape key s) (keys_plz input))
        @ map (\<lambda>message. double_quote name @ ''.'' @ message)
            (concat (map (\<lambda>(key, v). get_messages v (get_property input key) key)
                       (shape_entries s)))
      else [double_quote name @ '' is not an object''])"
  by (simp add: make_object_validator_def Let_def)

section \<open>The examples of the test suite and of the documentation\<close>

lemma test_output_messages:
  "get_messages
     (make_object_validator (object_literal
        [(''cool_number'', number_validator),
         (''cool_string'', string_validator),
         (''cool_bool'', boolean_validator),
         (''other_number'', optional number_validator),
         (''other_string'', optional string_validator),
         (''other_bool'', optional boolean_validator),
         (''cool_array'', make_array_validator string_validator),
         (''other_array'', optional (make_array_validator number_validator))]))
     (plain_object
        [(''cool_number'', JStr ''WRONG''),
         (''cool_string'', JStr ''wat''),
         (''other_number'', JNum (Finite 4)),
         (''other_array'', new_array [JStr ''WRONG'', JNum (Finite 2)]),
         (''WRONG'', JStr '':-o'')])
     ''invalid_input''
   = [''\"invalid_input\" should not have a property named \"WRONG\" '',
      ''\"invalid_input\".\"cool_number\" is not a number'',
      ''\"invalid_input\".\"cool_bool\" is not a boolean'',
      ''\"invalid_input\".\"cool_array\" is not an array'',
      ''\"invalid_input\".\"other_array\": \"other_array[0]\" is not a number, or \"other_array\" should be undefined'']"
  by code_simp

lemma readme_invalid_example:
  "get_messages
     (make_object_validator (object_literal
        [(''name'', string_validator),
         (''age'', number_validator),
         (''cool'', optional boolean_validator),
         (''powers'', make_array_validator string_validator)]))
     (plain_object [(''name'', JStr ''Superman'')])
     ''input''
   = [''\"input\".\"age\" is not a number'', ''\"input\".\"powers\" is not an array'']"
  by code_simp

lemma readme_options_example:
  "is_valid
     (make_object_validator (object_literal
        [(''name'', string_validator), (''age'', optional integer_validator)]))
     (plain_object [(''name'', JStr ''Joseph'')])
   \<and> \<not> is_valid
     (make_object_validator (object_literal
        [(''name'', string_validator), (''age'', optional integer_validator)]))
     (plain_object [(''age'', JNum (Finite 42))])"
  by code_simp

section \<open>The consistency law\<close>

lemma consistentD: "consistent v \<Longrightarrow> (get_messages v input name = []) = is_valid v input"
  by (simp add: consistent_def)

lemma consistent_string_validator: "consistent string_validator"
  by (simp add: consistent_def string_validator_def)

lemma consistent_number_validator: "consistent number_validator"
  by (simp add: consistent_def number_validator_def)

lemma consistent_boolean_validator: "consistent boolean_validator"
  by (simp add: consistent_def boolean_validator_def)

lemma consistent_null_validator: "consistent null_validator"
  by (simp add: consistent_def null_validator_def)

lemma consistent_undefined_validator: "consistent undefined_validator"
  by (simp add: consistent_def undefined_validator_def)

text \<open>
  For a regex without the \<^verbatim>\<open>g\<close> and \<^verbatim>\<open>y\<close> flags the two methods agree and leave the
  regex as it is.
\<close>

lemma consistent_regex_validator_without_flags:
  assumes "\<not> regexp_global r" "\<not> regexp_sticky r"
  shows "fst (make_regex_validator_is_valid r input)
           = (fst (make_regex_validator_get_messages r cm input name) = [])"
    and "snd (make_regex_validator_is_valid r input) = r"
    and "snd (make_regex_validator_get_messages r cm input name) = r"
  using regex_without_flags_unchanged [OF assms]
  by (simp_all add: get_messages_regex regex_after_call)

lemma consistent_one_of: "consistent (one_of vs)"
  by (simp add: consistent_def is_valid_one_of get_messages_one_of)

lemma consistent_nullable: "consistent (nullable v)"
  by (simp add: nullable_def consistent_one_of)

lemma consistent_optional: "consistent (optional v)"
  by (simp add: optional_def consistent_one_of)

lemma consistent_array_validator:
  assumes "consistent e"
  shows "consistent (make_array_validator e)"
proof -
  have "is_valid (make_array_validator e) input
        = (get_messages (make_array_validator e) input name = [])" for input name
  proof (cases "Array_isArray input")
    case True
    have "(get_messages (make_array_validator e) input name = [])
          = (\<forall>(index, element) \<in> set (visited_elements input). is_valid e element)"
      using True by (auto simp add: get_messages_array consistentD [OF assms])
    also have "\<dots> = list_all (\<lambda>(index, element). is_valid e element) (visited_elements input)"
      by (simp add: list_all_iff)
    finally show ?thesis using True by (simp add: is_valid_array)
  next
    case False
    then show ?thesis by (simp add: is_valid_array get_messages_array)
  qed
  then show ?thesis unfolding consistent_def by blast
qed

lemma consistent_object_values_validator:
  assumes "consistent e"
  shows "consistent (make_object_values_validator e)"
  using consistent_array_validator [OF assms]
  by (simp add: consistent_def is_valid_object_values get_messages_object_values)

lemma consistent_object_validator:
  assumes "\<forall>(key, v) \<in> set (shape_entries s). consistent v"
  shows "consistent (make_object_validator s)"
proof -
  have child: "(get_messages v input name = []) = is_valid v input"
    if "(key, v) \<in> set (shape_entries s)" for key v input name
    using assms that by (auto simp add: consistent_def)
  have "is_valid (make_object_validator s) input
        = (get_messages (make_object_validator s) input name = [])" for input name
  proof (cases "is_object input")
    case True
    have "(filter (\<lambda>key. \<not> key_in_shape key s) (keys_plz input) = [])
          = (\<forall>key \<in> set (keys_plz input). key_in_shape key s)"
      by (simp add: filter_empty_conv)
    moreover have "(concat (map (\<lambda>(key, v). get_messages v (get_property input key) key)
                      (shape_entries s)) = [])
          = (\<forall>(key, v) \<in> set (shape_entries s). is_valid v (get_property input key))"
      using child by (auto simp add: split_def)
    ultimately show ?thesis
      using True by (simp add: is_valid_object get_messages_object)
  next
    case False
    then show ?thesis by (simp add: is_valid_object get_messages_object)
  qed
  then show ?thesis unfolding consistent_def by blast
qed

text \<open>
  C1. The consistency law (a validator accepts an input exactly when it has no message
  for it, under every name) holds for the string, number, boolean, null and undefined
  validators, for one-of, for the regex validator on a pattern without the \<^verbatim>\<open>g\<close> and
  \<^verbatim>\<open>y\<close> flags, and for the array, object-values and object validators over consistent
  children, as shown above. It fails for the integer validator: 3.5 is not valid, and
  there is no message for it.
\<close>

theorem integer_validator_inconsistent:
  "\<not> is_valid integer_validator (JNum (Finite (7 / 2)))
   \<and> get_messages integer_validator (JNum (Finite (7 / 2))) ''n'' = []
   \<and> \<not> consistent integer_validator"
proof -
  have a: "\<not> is_valid integer_validator (JNum (Finite (7 / 2)))"
    by (simp add: integer_validator_def three_and_a_half)
  have b: "get_messages integer_validator (JNum (Finite (7 / 2))) ''n'' = []"
    by (simp add: integer_validator_def is_number_def)
  from a b have "\<not> consistent integer_validator"
    unfolding consistent_def by blast
  with a b show ?thesis by simp
qed

section \<open>The integer validator\<close>

text \<open>
  C2. The integer validator accepts exactly the numbers without a fractional part
  (\<^verbatim>\<open>Number.isInteger\<close>: finite and integral). Its messages follow the number check:
  the one message \<^verbatim>\<open>"n" is not an integer\<close> exactly when the input is not a number, and
  no message for any number, one with a fractional part included.
\<close>

theorem integer_validator_spec:
  "is_valid integer_validator x = (\<exists>q. x = JNum (Finite q) \<and> q \<in> \<int>)
   \<and> get_messages integer_validator x n =
       (if \<exists>m. x = JNum m then [] else [''\"'' @ n @ ''\" is not an integer''])
   \<and> get_messages integer_validator (JNum (Finite (7 / 2))) n = []"
  by (simp add: integer_validator_def is_integer_iff is_number_iff double_quote_def)

section \<open>The object validator\<close>

text \<open>
  C3. The claim: the object validator accepts an input exactly when it is an object,
  every key of the input is declared in the shape, and every declared key's validator
  accepts the input's value at that key, undefined when the input has no such key.
  The code tests a key with \<^verbatim>\<open>key in shape\<close> and reads with \<^verbatim>\<open>input[key]\<close>, and both
  follow the prototype chain. So the validator of the empty shape accepts an object
  whose only key is \<^verbatim>\<open>toString\<close>, which the shape does not declare; and a shape that
  declares \<^verbatim>\<open>constructor\<close> as an optional string rejects the empty object, where
  undefined would pass: the child is given the inherited function.
\<close>

theorem object_validator_accepts_inherited_key:
  "is_valid (make_object_validator (object_literal []))
     (plain_object [(''toString'', JNum (Finite 1))])
   \<and> ''toString'' \<in> set (keys_plz (plain_object [(''toString'', JNum (Finite 1))]))
   \<and> ''toString'' \<notin> fst ` set (shape_entries (object_literal []))
   \<and> is_valid (optional string_validator) JUndefined
   \<and> ''constructor'' \<notin> set (keys_plz (plain_object []))
   \<and> \<not> is_valid (make_object_validator
                    (object_literal [(''constructor'', optional string_validator)]))
         (plain_object [])"
  by (simp add: is_valid_object key_in_shape_iff keys_plz_def plain_object_def
      is_object_def object_literal_def optional_def is_valid_one_of undefined_validator_def
      get_property_def find_property_def object_prototype_hidden_def object_prototype_functions_def
      string_validator_def is_string_def)

text \<open>
  C4. The claim: for an object, the messages are one per key of the input that the shape
  does not declare, in the input's key order and with the trailing space, then the
  children's messages in the shape's key order, each behind \<^verbatim>\<open>"n".\<close>; for anything else
  the one message \<^verbatim>\<open>"n" is not an object\<close>. The code filters the input's keys with
  \<^verbatim>\<open>!(key in shape)\<close>: the undeclared key \<^verbatim>\<open>toString\<close> gets no message from the validator
  of the empty shape, where the undeclared key \<^verbatim>\<open>extra\<close> gets its message.
\<close>

theorem object_validator_no_message_for_inherited_key:
  "''toString'' \<in> set (keys_plz (plain_object [(''toString'', JNum (Finite 1))]))
   \<and> ''toString'' \<notin> fst ` set (shape_entries (object_literal []))
   \<and> get_messages (make_object_validator (object_literal []))
       (plain_object [(''toString'', JNum (Finite 1))]) ''n'' = []
   \<and> get_messages (make_object_validator (object_literal []))
       (plain_object [(''extra'', JNum (Finite 1))]) ''n''
       = [''\"n\" should not have a property named \"extra\" '']
   \<and> get_messages (make_object_validator (object_literal [])) (JNum (Finite 1)) ''n''
       = [''\"n\" is not an object'']"
  by (simp add: get_messages_object key_in_shape_iff keys_plz_def plain_object_def
      is_object_def object_literal_def object_prototype_hidden_def
      object_prototype_functions_def double_quote_def)

section \<open>One-of, nullable and optional\<close>

text \<open>
  C5. One-of accepts an input exactly when one of its validators does. When one does,
  there is no message. When none does, every validator rejects, and there is exactly one
  message: the quoted name, a colon and a space, then the messages of the rejecting
  validators, in their order, joined by \<^verbatim>\<open>, or \<close>.
\<close>

theorem one_of_spec:
  "is_valid (one_of vs) x = (\<exists>v \<in> set vs. is_valid v x)
   \<and> ((\<exists>v \<in> set vs. is_valid v x) \<longrightarrow> get_messages (one_of vs) x n = [])
   \<and> (\<not> (\<exists>v \<in> set vs. is_valid v x) \<longrightarrow>
        filter (\<lambda>v. \<not> is_valid v x) vs = vs
        \<and> get_messages (one_of vs) x n =
            [''\"'' @ n @ ''\": '' @ join '', or ''
               (concat (map (\<lambda>v. get_messages v x n) (filter (\<lambda>v. \<not> is_valid v x) vs)))])"
  by (simp add: is_valid_one_of get_messages_one_of double_quote_def)

theorem one_of_spec_witness:
  "is_valid (one_of [string_validator, number_validator]) (JNum (Finite 9))
   \<and> get_messages (one_of [string_validator, number_validator]) (JNum (Finite 9)) ''n'' = []
   \<and> \<not> is_valid (one_of [string_validator, number_validator]) (JBool True)
   \<and> get_messages (one_of [string_validator, number_validator]) (JBool True) ''n''
       = [''\"n\": \"n\" is not a string, or \"n\" is not a number'']"
  using one_of_spec [of "[string_validator, number_validator]" "JNum (Finite 9)" "''n''"]
    one_of_spec [of "[string_validator, number_validator]" "JBool True" "''n''"]
  by (simp add: string_validator_def number_validator_def is_string_def is_number_def
      double_quote_def)

text \<open>
  C7. Nullable is one-of over the validator and the null validator, and optional is
  one-of over the validator and the undefined validator: the same acceptance and the
  same messages, the one-of envelope included. An optional number accepts undefined and
  rejects null; a nullable number accepts null and rejects undefined.
\<close>

theorem nullable_optional_spec:
  "nullable v = one_of [v, null_validator]
   \<and> optional v = one_of [v, undefined_validator]
   \<and> is_valid (nullable v) x = (is_valid v x \<or> x = JNull)
   \<and> is_valid (optional v) x = (is_valid v x \<or> x = JUndefined)
   \<and> get_messages (nullable v) x n =
       (if is_valid v x \<or> x = JNull then []
        else [''\"'' @ n @ ''\": ''
              @ join '', or '' (get_messages v x n @ [''\"'' @ n @ ''\" should be null''])])
   \<and> get_messages (optional v) x n =
       (if is_valid v x \<or> x = JUndefined then []
        else [''\"'' @ n @ ''\": ''
              @ join '', or '' (get_messages v x n @ [''\"'' @ n @ ''\" should be undefined''])])
   \<and> is_valid (optional number_validator) JUndefined
   \<and> \<not> is_valid (optional number_validator) JNull
   \<and> is_valid (nullable number_validator) JNull
   \<and> \<not> is_valid (nullable number_validator) JUndefined"
  by (simp add: nullable_def optional_def is_valid_one_of get_messages_one_of
      null_validator_def undefined_validator_def number_validator_def is_number_def
      double_quote_def)

section \<open>The array validator\<close>

lemma visited_elements_with_hole:
  "visited_elements (JArr [None, Some (JNum (Finite 1))] [] array_prototype_hidden)
     = [(1, JNum (Finite 1))]"
  by code_simp

text \<open>
  C6. The array validator rejects what is not an array, with the one message
  \<^verbatim>\<open>"n" is not an array\<close>. It accepts an array exactly when the element validator accepts
  every element, and its messages for an array are the element validator's messages for
  each element, in ascending index order, under the name \<^verbatim>\<open>n[i]\<close>. The empty array is
  valid and has no message. This holds for an array with an element in every slot, and
  for any array with the elements that \<^verbatim>\<open>every\<close> and \<^verbatim>\<open>flatMap\<close> visit, each under its
  own index.
\<close>

theorem array_validator_spec:
  "(\<not> Array_isArray x \<longrightarrow>
      \<not> is_valid (make_array_validator e) x
      \<and> get_messages (make_array_validator e) x n = [''\"'' @ n @ ''\" is not an array''])
   \<and> is_valid (make_array_validator e) (JArr (map Some xs) extras h)
       = (\<forall>el \<in> set xs. is_valid e el)
   \<and> get_messages (make_array_validator e) (JArr (map Some xs) extras h) n =
       concat (map (\<lambda>i. get_messages e (xs ! i) (n @ ''['' @ show_nat i @ '']''))
                 [0..<length xs])
   \<and> is_valid (make_array_validator e) (JArr slots extras h)
       = (\<forall>(i, el) \<in> set (visited_elements (JArr slots extras h)). is_valid e el)
   \<and> get_messages (make_array_validator e) (JArr slots extras h) n =
       concat (map (\<lambda>(i, el). get_messages e el (n @ ''['' @ show_nat i @ '']''))
                 (visited_elements (JArr slots extras h)))
   \<and> is_valid (make_array_validator e) (JArr [] extras h)
   \<and> get_messages (make_array_validator e) (JArr [] extras h) n = []"
proof -
  have not_array: "\<not> Array_isArray x \<longrightarrow>
      \<not> is_valid (make_array_validator e) x
      \<and> get_messages (make_array_validator e) x n = [''\"'' @ n @ ''\" is not an array'']"
    by (simp add: is_valid_array get_messages_array double_quote_def)
  have dense_valid: "is_valid (make_array_validator e) (JArr (map Some xs) extras h)
       = (\<forall>el \<in> set xs. is_valid e el)"
    by (simp add: is_valid_array_dense list_all_iff)
  have dense_messages: "get_messages (make_array_validator e) (JArr (map Some xs) extras h) n =
       concat (map (\<lambda>i. get_messages e (xs ! i) (n @ ''['' @ show_nat i @ '']''))
                 [0..<length xs])"
    by (rule get_messages_array_dense)
  have valid: "is_valid (make_array_validator e) (JArr slots extras h)
       = (\<forall>(i, el) \<in> set (visited_elements (JArr slots extras h)). is_valid e el)"
    by (simp add: is_valid_array list_all_iff)
  have messages: "get_messages (make_array_validator e) (JArr slots extras h) n =
       concat (map (\<lambda>(i, el). get_messages e el (n @ ''['' @ show_nat i @ '']''))
                 (visited_elements (JArr slots extras h)))"
    by (simp add: get_messages_array)
  have empty: "is_valid (make_array_validator e) (JArr [] extras h)"
    "get_messages (make_array_validator e) (JArr [] extras h) n = []"
    by (simp_all add: is_valid_array get_messages_array)
  from not_array dense_valid dense_messages valid messages empty show ?thesis
    by (intro conjI)
qed

theorem array_validator_spec_witness:
  "\<not> Array_isArray (JBool True)
   \<and> get_messages (make_array_validator string_validator) (JBool True) ''n''
       = [''\"n\" is not an array'']
   \<and> is_valid (make_array_validator string_validator) (new_array [JStr ''a'', JStr ''b''])
   \<and> \<not> is_valid (make_array_validator string_validator) (new_array [JStr ''a'', JNum (Finite 1)])
   \<and> is_valid (make_array_validator string_validator) (new_array [])
   \<and> get_messages (make_array_validator string_validator)
         (new_array [JStr ''a'', JNum (Finite 1)]) ''n''
       = [''\"n[1]\" is not a string'']
   \<and> get_messages (make_array_validator string_validator)
         (JArr [None, Some (JNum (Finite 1))] [] array_prototype_hidden) ''n''
       = [''\"n[1]\" is not a string'']"
  using array_validator_spec [where x = "JBool True" and e = string_validator and n = "''n''"
      and xs = "[JStr ''a'', JStr ''b'']" and extras = "[]" and h = array_prototype_hidden
      and slots = "[None, Some (JNum (Finite 1))]"]
    array_validator_spec [where x = "JBool True" and e = string_validator and n = "''n''"
      and xs = "[JStr ''a'', JNum (Finite 1)]" and extras = "[]" and h = array_prototype_hidden
      and slots = "[]"]
    array_validator_spec [where x = "JBool True" and e = string_validator and n = "''n''"
      and xs = "[]" and extras = "[]" and h = array_prototype_hidden and slots = "[]"]
  by (simp add: new_array_def visited_elements_with_hole string_validator_def is_string_def
      double_quote_def upt_rec)

section \<open>The object-values validator\<close>

text \<open>
  C8. The object-values validator rejects what is not an object, with the one message
  \<^verbatim>\<open>"n" is not an object\<close>. On an object it gives what the array validator gives on
  the array of the object's values, under the object's own name, so that the message
  paths are \<^verbatim>\<open>n[i]\<close>. The empty object is valid.
\<close>

theorem object_values_validator_spec:
  "(\<not> is_object x \<longrightarrow>
      \<not> is_valid (make_object_values_validator e) x
      \<and> get_messages (make_object_values_validator e) x n = [''\"'' @ n @ ''\" is not an object''])
   \<and> (is_object x \<longrightarrow>
        is_valid (make_object_values_validator e) x
          = is_valid (make_array_validator e) (values_plz x)
        \<and> get_messages (make_object_values_validator e) x n
          = get_messages (make_array_validator e) (values_plz x) n)
   \<and> values_plz (JObj es h) = new_array (map snd es)
   \<and> visited_elements (values_plz (JObj es h)) = enumerate 0 (map snd es)
   \<and> is_valid (make_object_values_validator e) (JObj es h)
       = (\<forall>el \<in> set (map snd es). is_valid e el)
   \<and> get_messages (make_object_values_validator e) (JObj es h) n =
       concat (map (\<lambda>i. get_messages e (snd (es ! i)) (n @ ''['' @ show_nat i @ '']''))
                 [0..<length es])
   \<and> is_valid (make_object_values_validator e) (JObj [] h)"
proof -
  have not_object: "\<not> is_object x \<longrightarrow>
      \<not> is_valid (make_object_values_validator e) x
      \<and> get_messages (make_object_values_validator e) x n = [''\"'' @ n @ ''\" is not an object'']"
    by (simp add: is_valid_object_values get_messages_object_values double_quote_def)
  have is_obj: "is_object x \<longrightarrow>
        is_valid (make_object_values_validator e) x
          = is_valid (make_array_validator e) (values_plz x)
        \<and> get_messages (make_object_values_validator e) x n
          = get_messages (make_array_validator e) (values_plz x) n"
    by (simp add: is_valid_object_values get_messages_object_values)
  have vals: "values_plz (JObj es h) = new_array (map snd es)"
    by (rule values_plz_dense)
  have visited: "visited_elements (values_plz (JObj es h)) = enumerate 0 (map snd es)"
    by (simp only: values_plz_dense visited_elements_new_array)
  have valid: "is_valid (make_object_values_validator e) (JObj es h)
       = (\<forall>el \<in> set (map snd es). is_valid e el)" for es
    by (simp add: is_valid_object_values values_plz_dense is_valid_array_new_array
        is_object_iff list_all_iff)
  have messages: "get_messages (make_object_values_validator e) (JObj es h) n =
       concat (map (\<lambda>i. get_messages e (snd (es ! i)) (n @ ''['' @ show_nat i @ '']''))
                 [0..<length es])"
    by (rule get_messages_object_values_JObj)
  have empty: "is_valid (make_object_values_validator e) (JObj [] h)"
    by (simp add: valid)
  from not_object is_obj vals visited valid [of es] messages empty show ?thesis
    by (intro conjI)
qed

theorem object_values_validator_spec_witness:
  "\<not> is_object (JNum (Finite 3))
   \<and> get_messages (make_object_values_validator string_validator) (JNum (Finite 3)) ''n''
       = [''\"n\" is not an object'']
   \<and> is_object (plain_object [(''hello'', JStr ''darkness''), (''non_string'', JNum (Finite 3))])
   \<and> \<not> is_valid (make_object_values_validator string_validator)
         (plain_object [(''hello'', JStr ''darkness''), (''non_string'', JNum (Finite 3))])
   \<and> get_messages (make_object_values_validator string_validator)
         (plain_object [(''hello'', JStr ''darkness''), (''non_string'', JNum (Finite 3))]) ''n''
       = [''\"n[1]\" is not a string'']
   \<and> is_valid (make_object_values_validator string_validator) (plain_object [])"
  using object_values_validator_spec [of "JNum (Finite 3)" string_validator "''n''"
      "[(''hello'', JStr ''darkness''), (''non_string'', JNum (Finite 3))]" object_prototype_hidden]
    object_values_validator_spec [of "plain_object []" string_validator "''n''"
      "[]" object_prototype_hidden]
  by (simp add: plain_object_def is_object_def string_validator_def is_string_def
      double_quote_def upt_rec)

section \<open>The regex validator\<close>




section \<open>Arrays under the object-values validator\<close>






end
